theory Spec2Isabelle
  imports Complex_Main
begin

section \<open>Numbers of the numerical library\<close>

text \<open>
  The program computes with numpy's double-precision values. A value is a number or one of
  the three special values; the special values are what a division by zero produces (with
  a warning, never an exception). Finite arithmetic is exact here: rounding, overflow and
  the sign of zero are not part of the model (a zero divisor counts as +0).
\<close>

datatype npfloat = Fin real | PInf | NInf | NaN

fun np_neg :: "npfloat \<Rightarrow> npfloat" where
  "np_neg (Fin a) = Fin (- a)"
| "np_neg PInf = NInf"
| "np_neg NInf = PInf"
| "np_neg NaN = NaN"

fun np_add :: "npfloat \<Rightarrow> npfloat \<Rightarrow> npfloat" where
  "np_add NaN _ = NaN"
| "np_add _ NaN = NaN"
| "np_add (Fin a) (Fin b) = Fin (a + b)"
| "np_add PInf NInf = NaN"
| "np_add NInf PInf = NaN"
| "np_add PInf _ = PInf"
| "np_add _ PInf = PInf"
| "np_add NInf _ = NInf"
| "np_add _ NInf = NInf"

definition np_sub :: "npfloat \<Rightarrow> npfloat \<Rightarrow> npfloat" where
  "np_sub a b = np_add a (np_neg b)"

text \<open>The sign of a product or quotient with an infinite operand.\<close>

definition signed_inf :: "bool \<Rightarrow> npfloat" where
  "signed_inf positive = (if positive then PInf else NInf)"

fun np_mul :: "npfloat \<Rightarrow> npfloat \<Rightarrow> npfloat" where
  "np_mul NaN _ = NaN"
| "np_mul _ NaN = NaN"
| "np_mul (Fin a) (Fin b) = Fin (a * b)"
| "np_mul (Fin a) PInf = (if a = 0 then NaN else signed_inf (0 < a))"
| "np_mul (Fin a) NInf = (if a = 0 then NaN else signed_inf (a < 0))"
| "np_mul PInf (Fin b) = (if b = 0 then NaN else signed_inf (0 < b))"
| "np_mul NInf (Fin b) = (if b = 0 then NaN else signed_inf (b < 0))"
| "np_mul PInf PInf = PInf"
| "np_mul NInf NInf = PInf"
| "np_mul PInf NInf = NInf"
| "np_mul NInf PInf = NInf"

fun np_div :: "npfloat \<Rightarrow> npfloat \<Rightarrow> npfloat" where
  "np_div NaN _ = NaN"
| "np_div _ NaN = NaN"
| "np_div (Fin a) (Fin b) =
     (if b \<noteq> 0 then Fin (a / b) else if a = 0 then NaN else signed_inf (0 < a))"
| "np_div (Fin a) PInf = Fin 0"
| "np_div (Fin a) NInf = Fin 0"
| "np_div PInf (Fin b) = signed_inf (0 \<le> b)"
| "np_div NInf (Fin b) = signed_inf (b < 0)"
| "np_div PInf PInf = NaN"
| "np_div PInf NInf = NaN"
| "np_div NInf PInf = NaN"
| "np_div NInf NInf = NaN"

text \<open>Comparisons: every comparison with NaN is false.\<close>

fun np_lt :: "npfloat \<Rightarrow> npfloat \<Rightarrow> bool" where
  "np_lt NaN _ = False"
| "np_lt _ NaN = False"
| "np_lt (Fin a) (Fin b) = (a < b)"
| "np_lt _ NInf = False"
| "np_lt NInf _ = True"
| "np_lt PInf _ = False"
| "np_lt _ PInf = True"

fun np_le :: "npfloat \<Rightarrow> npfloat \<Rightarrow> bool" where
  "np_le NaN _ = False"
| "np_le _ NaN = False"
| "np_le (Fin a) (Fin b) = (a \<le> b)"
| "np_le NInf _ = True"
| "np_le _ PInf = True"
| "np_le _ NInf = False"
| "np_le PInf _ = False"

definition np_gt :: "npfloat \<Rightarrow> npfloat \<Rightarrow> bool" where
  "np_gt a b = np_lt b a"

definition np_ge :: "npfloat \<Rightarrow> npfloat \<Rightarrow> bool" where
  "np_ge a b = np_le b a"

text \<open>\<^verbatim>\<open>np.cos\<close>, \<^verbatim>\<open>np.sin\<close> and \<^verbatim>\<open>np.radians\<close> (degrees times pi / 180).\<close>

fun np_cos :: "npfloat \<Rightarrow> npfloat" where
  "np_cos (Fin a) = Fin (cos a)"
| "np_cos _ = NaN"

fun np_sin :: "npfloat \<Rightarrow> npfloat" where
  "np_sin (Fin a) = Fin (sin a)"
| "np_sin _ = NaN"

definition np_radians :: "npfloat \<Rightarrow> npfloat" where
  "np_radians a = np_mul a (Fin (pi / 180))"

text \<open>
  Indexing an array with a boolean array of the same length keeps the elements at the
  positions that are true.
\<close>

fun np_mask :: "'a list \<Rightarrow> bool list \<Rightarrow> 'a list" where
  "np_mask (v # vs) (b # bs) = (if b then v # np_mask vs bs else np_mask vs bs)"
| "np_mask _ _ = []"

text \<open>
  \<^verbatim>\<open>a.min()\<close> and \<^verbatim>\<open>a.max()\<close>: NaN propagates, and an empty array raises
  \<^verbatim>\<open>ValueError\<close> (the reduction has no identity).
\<close>

datatype py_error = ValueError

definition np_minimum :: "npfloat \<Rightarrow> npfloat \<Rightarrow> npfloat" where
  "np_minimum a b = (if a = NaN \<or> b = NaN then NaN else if np_lt b a then b else a)"

definition np_maximum :: "npfloat \<Rightarrow> npfloat \<Rightarrow> npfloat" where
  "np_maximum a b = (if a = NaN \<or> b = NaN then NaN else if np_lt a b then b else a)"

fun np_amin :: "npfloat list \<Rightarrow> py_error + npfloat" where
  "np_amin [] = Inl ValueError"
| "np_amin (a # as) = Inr (foldl np_minimum a as)"

fun np_amax :: "npfloat list \<Rightarrow> py_error + npfloat" where
  "np_amax [] = Inl ValueError"
| "np_amax (a # as) = Inr (foldl np_maximum a as)"

section \<open>The catalog table\<close>

text \<open>
  A row of the result table: the four selected columns. A cell of the parallax column is a
  number or null; read as an array it is a number or NaN.
\<close>

record CatalogRow =
  source_id :: int
  ra :: real
  dec :: real
  parallax :: "real option"

definition cell :: "real option \<Rightarrow> npfloat" where
  "cell c = (case c of None \<Rightarrow> NaN | Some v \<Rightarrow> Fin v)"

section \<open>Distances and projection\<close>

text \<open>
  \<^verbatim>\<open>nearby_stars\<close>, from the parallax column to the Cartesian coordinates: the mask of the
  positive parallaxes, the distances of the masked rows, their angles in radians, and the
  two coordinate arrays.
\<close>

record projection =
  star_distances :: "npfloat list"
  star_x :: "npfloat list"
  star_y :: "npfloat list"

definition project :: "CatalogRow list \<Rightarrow> projection" where
  "project result_table =
     (let parallaxes = map (\<lambda>r. cell (parallax r)) result_table;
          valid_parallaxes = map (\<lambda>p. np_gt p (Fin 0)) parallaxes;
          distances = map (\<lambda>p. np_div (Fin 1) p) (np_mask parallaxes valid_parallaxes);
          ra_rad = map np_radians (np_mask (map (\<lambda>r. Fin (ra r)) result_table) valid_parallaxes);
          dec_rad = map np_radians (np_mask (map (\<lambda>r. Fin (dec r)) result_table) valid_parallaxes);
          x = map (\<lambda>(d, de, r). np_mul (np_mul d (np_cos de)) (np_cos r))
                (zip distances (zip dec_rad ra_rad));
          y = map (\<lambda>(d, de, r). np_mul (np_mul d (np_cos de)) (np_sin r))
                (zip distances (zip dec_rad ra_rad))
      in \<lparr>star_distances = distances, star_x = x, star_y = y\<rparr>)"

text \<open>The rows the mask keeps: those with a parallax that is present and positive.\<close>

definition kept :: "CatalogRow \<Rightarrow> bool" where
  "kept r = (case parallax r of None \<Rightarrow> False | Some p \<Rightarrow> 0 < p)"

definition parallax_of :: "CatalogRow \<Rightarrow> real" where
  "parallax_of r = (case parallax r of None \<Rightarrow> 0 | Some p \<Rightarrow> p)"

section \<open>Unit conversion and the query\<close>

text \<open>
  \<^verbatim>\<open>max_distance.to(u.pc).value\<close> for a distance in light-years. The factor is the unit
  library's: a light-year is 9460730472580800 m, a parsec is 648000 / pi astronomical units
  of 149597870700 m.
\<close>

definition lyr_in_pc :: real where
  "lyr_in_pc = 9460730472580800 * pi / (648000 * 149597870700)"

definition to_pc :: "npfloat \<Rightarrow> npfloat" where
  "to_pc max_distance = np_mul max_distance (Fin lyr_in_pc)"

text \<open>
  The query text is fixed but for the number substituted after \<^verbatim>\<open>parallax >=\<close>; the record
  keeps the clauses of the text and that number.
\<close>

record query =
  select_list :: string
  from_table :: string
  min_parallax :: npfloat
  parallax_not_null :: bool

definition build_query :: "npfloat \<Rightarrow> query" where
  "build_query max_distance_pc =
     \<lparr>select_list = ''source_id, ra, dec, parallax'',
      from_table = ''gaiadr2.gaia_source'',
      min_parallax = np_div (Fin 1) max_distance_pc,
      parallax_not_null = True\<rparr>"

text \<open>
  The rows a query selects, as the catalog service evaluates its WHERE clause: a comparison
  with a null cell does not hold.
\<close>

definition selects :: "query \<Rightarrow> CatalogRow \<Rightarrow> bool" where
  "selects q r =
     ((case parallax r of None \<Rightarrow> False | Some p \<Rightarrow> np_ge (Fin p) (min_parallax q))
      \<and> (if parallax_not_null q then parallax r \<noteq> None else True))"

section \<open>Sizes and colours\<close>

definition max_star_size :: real where
  "max_star_size = 100"

definition min_star_size :: real where
  "min_star_size = 10"

text \<open>
  \<^verbatim>\<open>(1 - (distances - distances.min()) / (distances.max() - distances.min()))
      * (max_star_size - min_star_size) + min_star_size\<close>
\<close>

definition star_sizes :: "npfloat list \<Rightarrow> py_error + npfloat list" where
  "star_sizes distances =
     (case np_amin distances of
        Inl e \<Rightarrow> Inl e
      | Inr lo \<Rightarrow>
          (case np_amax distances of
             Inl e \<Rightarrow> Inl e
           | Inr hi \<Rightarrow>
               Inr (map (\<lambda>d. np_add
                               (np_mul (np_sub (Fin 1) (np_div (np_sub d lo) (np_sub hi lo)))
                                  (Fin (max_star_size - min_star_size)))
                               (Fin min_star_size))
                      distances)))"

text \<open>
  \<^verbatim>\<open>plt.cm.coolwarm(1 - (distances - distances.min()) / (distances.max() - distances.min()))\<close>:
  the colour map belongs to the plotting library, so a colour is the map applied to its
  argument.
\<close>

datatype colour = Coolwarm npfloat

definition star_colors :: "npfloat list \<Rightarrow> py_error + colour list" where
  "star_colors distances =
     (case np_amin distances of
        Inl e \<Rightarrow> Inl e
      | Inr lo \<Rightarrow>
          (case np_amax distances of
             Inl e \<Rightarrow> Inl e
           | Inr hi \<Rightarrow>
               Inr (map (\<lambda>d. Coolwarm (np_sub (Fin 1) (np_div (np_sub d lo) (np_sub hi lo))))
                      distances)))"

section \<open>Reading the user's number\<close>

text \<open>
  The built-in \<^verbatim>\<open>float\<close> on an ASCII string, after the language reference: surrounding
  whitespace is stripped, then
  \<^verbatim>\<open>[sign] (floatnumber | "inf" | "infinity" | "nan")\<close> with
  \<^verbatim>\<open>floatnumber ::= number [("e" | "E") [sign] digitpart]\<close>,
  \<^verbatim>\<open>number ::= [digitpart] "." digitpart | digitpart ["."]\<close> and
  \<^verbatim>\<open>digitpart ::= digit (["_"] digit)*\<close>. \<open>None\<close> is the \<^verbatim>\<open>ValueError\<close> of a string
  that is no number. The value is the exact decimal. The whitespace stripped from an ASCII
  string is the space and the characters 9 to 13; the separators 28 to 31 are not stripped.
\<close>

definition is_space :: "char \<Rightarrow> bool" where
  "is_space c = (c \<in> set [CHR '' '', CHR 0x09, CHR 0x0A, CHR 0x0B, CHR 0x0C, CHR 0x0D])"

definition strip :: "string \<Rightarrow> string" where
  "strip s = rev (dropWhile is_space (rev (dropWhile is_space s)))"

definition lower :: "char \<Rightarrow> char" where
  "lower c = (case map_of (zip ''ABCDEFGHIJKLMNOPQRSTUVWXYZ'' ''abcdefghijklmnopqrstuvwxyz'') c of
                None \<Rightarrow> c | Some l \<Rightarrow> l)"

definition digit_of :: "char \<Rightarrow> nat option" where
  "digit_of c = map_of (zip ''0123456789'' [0, 1, 2, 3, 4, 5, 6, 7, 8, 9]) c"

fun digitpart :: "string \<Rightarrow> nat list option" where
  "digitpart [] = None"
| "digitpart [c] = map_option (\<lambda>d. [d]) (digit_of c)"
| "digitpart (c # u # cs) =
     (case digit_of c of
        None \<Rightarrow> None
      | Some d \<Rightarrow> map_option ((#) d) (digitpart (if u = CHR ''_'' then cs else u # cs)))"

definition digits_value :: "nat list \<Rightarrow> nat" where
  "digits_value ds = foldl (\<lambda>a d. 10 * a + d) 0 ds"

definition number :: "string \<Rightarrow> real option" where
  "number s =
     (let ip = takeWhile (\<lambda>c. c \<noteq> CHR ''.'') s;
          rest = dropWhile (\<lambda>c. c \<noteq> CHR ''.'') s
      in if rest = [] \<or> tl rest = [] then map_option (\<lambda>ds. real (digits_value ds)) (digitpart ip)
         else (case digitpart (tl rest) of
                 None \<Rightarrow> None
               | Some fs \<Rightarrow>
                   (if ip = [] then Some (real (digits_value fs) / 10 ^ length fs)
                    else map_option
                           (\<lambda>ds. real (digits_value ds) + real (digits_value fs) / 10 ^ length fs)
                           (digitpart ip))))"

definition exponent :: "string \<Rightarrow> int option" where
  "exponent s =
     (case s of
        [] \<Rightarrow> None
      | c # cs \<Rightarrow>
          if c = CHR ''+'' then map_option (\<lambda>ds. int (digits_value ds)) (digitpart cs)
          else if c = CHR ''-'' then map_option (\<lambda>ds. - int (digits_value ds)) (digitpart cs)
          else map_option (\<lambda>ds. int (digits_value ds)) (digitpart s))"

definition floatnumber :: "string \<Rightarrow> real option" where
  "floatnumber s =
     (let m = takeWhile (\<lambda>c. c \<noteq> CHR ''e'' \<and> c \<noteq> CHR ''E'') s;
          rest = dropWhile (\<lambda>c. c \<noteq> CHR ''e'' \<and> c \<noteq> CHR ''E'') s
      in case number m of
           None \<Rightarrow> None
         | Some v \<Rightarrow>
             (if rest = [] then Some v
              else (case exponent (tl rest) of
                      None \<Rightarrow> None
                    | Some k \<Rightarrow> Some (if 0 \<le> k then v * 10 ^ nat k else v / 10 ^ nat (- k)))))"

definition absfloatvalue :: "string \<Rightarrow> npfloat option" where
  "absfloatvalue s =
     (if map lower s = ''inf'' \<or> map lower s = ''infinity'' then Some PInf
      else if map lower s = ''nan'' then Some NaN
      else map_option Fin (floatnumber s))"

definition py_float :: "string \<Rightarrow> npfloat option" where
  "py_float text =
     (case strip text of
        [] \<Rightarrow> None
      | c # cs \<Rightarrow>
          if c = CHR ''-'' then map_option np_neg (absfloatvalue cs)
          else if c = CHR ''+'' then absfloatvalue cs
          else absfloatvalue (c # cs))"


section \<open>The two entry points\<close>

text \<open>
  What a run does to the outside, in order: the query it sends, the line it prints, the calls
  on the plotting library. The star scatter carries the arrays \<^verbatim>\<open>x\<close>, \<^verbatim>\<open>y\<close>, \<^verbatim>\<open>c\<close> and
  \<^verbatim>\<open>s\<close>; the axis limits and the title carry their numbers.
\<close>

datatype call =
    LaunchJob query
  | Print string
  | Subplots
  | FigClf
  | AddSubplot
  | AxClear
  | SunGlow
  | ScatterSun
  | ScatterStars "npfloat list" "npfloat list" "colour list" "npfloat list"
  | SetXlim npfloat npfloat
  | SetYlim npfloat npfloat
  | SetLabels
  | SetTitle npfloat
  | Legend
  | Colorbar
  | TickParams
  | Grid
  | Show
  | CanvasDraw

text \<open>
  \<^verbatim>\<open>ax.set_xlim\<close> and \<^verbatim>\<open>ax.set_ylim\<close> accept finite limits only: a limit that is NaN or
  infinite raises \<^verbatim>\<open>ValueError\<close> (axis limits cannot be NaN or Inf).
\<close>

definition finite_limit :: "npfloat \<Rightarrow> bool" where
  "finite_limit a = (case a of Fin _ \<Rightarrow> True | _ \<Rightarrow> False)"

text \<open>
  \<^verbatim>\<open>nearby_stars(max_distance)\<close> of the script, for a distance in light-years. The catalog
  service is the function \<open>gaia\<close> from the query to the result table. The result is the
  calls made and the exception that ended the run, if one did.
\<close>

definition nearby_stars ::
  "(query \<Rightarrow> CatalogRow list) \<Rightarrow> npfloat \<Rightarrow> call list \<times> py_error option" where
  "nearby_stars gaia max_distance =
     (let max_distance_pc = to_pc max_distance;
          query = build_query max_distance_pc;
          result_table = gaia query
      in if length result_table = 0
         then ([LaunchJob query, Print ''No nearby stars found within the specified distance.''],
               None)
         else
           (let p = project result_table;
                drawn = [LaunchJob query, Subplots, SunGlow, ScatterSun]
            in case star_sizes (star_distances p) of
                 Inl e \<Rightarrow> (drawn, Some e)
               | Inr sizes \<Rightarrow>
                   (case star_colors (star_distances p) of
                      Inl e \<Rightarrow> (drawn, Some e)
                    | Inr colors \<Rightarrow>
                        if finite_limit (np_neg (to_pc max_distance))
                             \<and> finite_limit (to_pc max_distance)
                        then
                          (drawn @
                           [ScatterStars (star_x p) (star_y p) colors sizes,
                            SetXlim (np_neg (to_pc max_distance)) (to_pc max_distance),
                            SetYlim (np_neg (to_pc max_distance)) (to_pc max_distance),
                            SetLabels, SetTitle max_distance, Legend, Colorbar, TickParams, Grid,
                            Show],
                           None)
                        else
                          (drawn @ [ScatterStars (star_x p) (star_y p) colors sizes],
                           Some ValueError))))"


text \<open>
  \<^verbatim>\<open>NearbyStarsApp.plot_nearby_stars\<close> of the window, for the text of the input field.
\<close>

definition plot_nearby_stars ::
  "(query \<Rightarrow> CatalogRow list) \<Rightarrow> string \<Rightarrow> call list \<times> py_error option" where
  "plot_nearby_stars gaia text =
     (case py_float text of
        None \<Rightarrow> ([], Some ValueError)
      | Some max_distance \<Rightarrow>
          (let max_distance_pc = np_mul max_distance (Fin lyr_in_pc);
               query = \<lparr>select_list = ''source_id, ra, dec, parallax'',
                        from_table = ''gaiadr2.gaia_source'',
                        min_parallax = np_div (Fin 1) max_distance_pc,
                        parallax_not_null = True\<rparr>;
               result_table = gaia query
           in if length result_table = 0
              then ([LaunchJob query,
                     Print ''No nearby stars found within the specified distance.''], None)
              else
                (let parallaxes = map (\<lambda>r. cell (parallax r)) result_table;
                     valid_parallaxes = map (\<lambda>p. np_gt p (Fin 0)) parallaxes;
                     distances = map (\<lambda>p. np_div (Fin 1) p) (np_mask parallaxes valid_parallaxes);
                     ra_rad = map np_radians
                                (np_mask (map (\<lambda>r. Fin (ra r)) result_table) valid_parallaxes);
                     dec_rad = map np_radians
                                 (np_mask (map (\<lambda>r. Fin (dec r)) result_table) valid_parallaxes);
                     x = map (\<lambda>(d, de, r). np_mul (np_mul d (np_cos de)) (np_cos r))
                           (zip distances (zip dec_rad ra_rad));
                     y = map (\<lambda>(d, de, r). np_mul (np_mul d (np_cos de)) (np_sin r))
                           (zip distances (zip dec_rad ra_rad));
                     drawn = [LaunchJob query, FigClf, AddSubplot, AxClear, SunGlow, ScatterSun]
                 in case (np_amin distances, np_amax distances) of
                      (Inr lo, Inr hi) \<Rightarrow>
                        (let star_sizes =
                               map (\<lambda>d. np_add
                                           (np_mul
                                              (np_sub (Fin 1) (np_div (np_sub d lo) (np_sub hi lo)))
                                              (Fin (100 - 10)))
                                           (Fin 10))
                                 distances;
                             star_colors =
                               map (\<lambda>d. Coolwarm
                                           (np_sub (Fin 1) (np_div (np_sub d lo) (np_sub hi lo))))
                                 distances
                         in if finite_limit (np_neg max_distance_pc)
                                 \<and> finite_limit max_distance_pc
                            then
                              (drawn @
                               [ScatterStars x y star_colors star_sizes,
                                SetXlim (np_neg max_distance_pc) max_distance_pc,
                                SetYlim (np_neg max_distance_pc) max_distance_pc,
                                SetLabels, SetTitle max_distance, Legend, Colorbar, TickParams,
                                Grid, CanvasDraw],
                               None)
                            else
                              (drawn @ [ScatterStars x y star_colors star_sizes],
                               Some ValueError))
                    | _ \<Rightarrow> (drawn, Some ValueError))))"


section \<open>Properties\<close>

subsection \<open>The projection, row by row\<close>

lemma np_mask_map:
  "np_mask (map f rs) (map g rs) = map f (filter g rs)"
  by (induction rs) simp_all

lemma valid_cell: "np_gt (cell (parallax r)) (Fin 0) = kept r"
  by (simp add: np_gt_def cell_def kept_def split: option.splits)

lemma distance_kept: "kept r \<Longrightarrow> np_div (Fin 1) (cell (parallax r)) = Fin (1 / parallax_of r)"
  by (auto simp: cell_def kept_def parallax_of_def split: option.splits)

lemma np_radians_Fin: "np_radians (Fin a) = Fin (a * (pi / 180))"
  by (simp add: np_radians_def)


text \<open>
  The three arrays are maps over the kept rows: the mask selects the same rows from every
  column, and on a kept row no operation leaves the finite numbers.
\<close>

lemma project_kept:
  "project tbl =
     \<lparr>star_distances = map (\<lambda>r. Fin (1 / parallax_of r)) (filter kept tbl),
      star_x = map (\<lambda>r. Fin (1 / parallax_of r * cos (dec r * (pi / 180)) * cos (ra r * (pi / 180))))
                 (filter kept tbl),
      star_y = map (\<lambda>r. Fin (1 / parallax_of r * cos (dec r * (pi / 180)) * sin (ra r * (pi / 180))))
                 (filter kept tbl)\<rparr>"
proof -
  have m: "\<And>f. np_mask (map f tbl) (map (\<lambda>p. np_gt p (Fin 0)) (map (\<lambda>r. cell (parallax r)) tbl))
             = map f (filter kept tbl)"
    using np_mask_map [of _ tbl "\<lambda>r. np_gt (cell (parallax r)) (Fin 0)"]
    by (simp add: valid_cell comp_def)
  have d: "map (\<lambda>p. np_div (Fin 1) p) (map (\<lambda>r. cell (parallax r)) (filter kept tbl))
             = map (\<lambda>r. Fin (1 / parallax_of r)) (filter kept tbl)"
    by (simp add: distance_kept)
  show ?thesis
    unfolding project_def Let_def m d
    by (simp add: zip_map_map zip_same_conv_map np_radians_Fin comp_def)
qed



text \<open>
  Claim C1. On every table the engine emits, for each kept row in order, the distance
  1 / parallax and the coordinates distance * cos(dec) * cos(ra) and
  distance * cos(dec) * sin(ra), with the angles converted from degrees to radians. The row
  (ra 0, dec 0, parallax 1) gives distance 1, x = 1, y = 0; the row (ra 90, dec 0,
  parallax 1) gives x = 0 and y = 1 (exactly, in arithmetic without rounding).
\<close>

theorem projection_formula:
  "project tbl =
     \<lparr>star_distances = map (\<lambda>r. Fin (1 / parallax_of r)) (filter kept tbl),
      star_x = map (\<lambda>r. Fin (1 / parallax_of r * cos (dec r * (pi / 180)) * cos (ra r * (pi / 180))))
                 (filter kept tbl),
      star_y = map (\<lambda>r. Fin (1 / parallax_of r * cos (dec r * (pi / 180)) * sin (ra r * (pi / 180))))
                 (filter kept tbl)\<rparr>
   \<and> project [\<lparr>source_id = i, ra = 0, dec = 0, parallax = Some 1\<rparr>]
       = \<lparr>star_distances = [Fin 1], star_x = [Fin 1], star_y = [Fin 0]\<rparr>
   \<and> project [\<lparr>source_id = i, ra = 90, dec = 0, parallax = Some 1\<rparr>]
       = \<lparr>star_distances = [Fin 1], star_x = [Fin 0], star_y = [Fin 1]\<rparr>"
proof -
  have a: "project [\<lparr>source_id = i, ra = 0, dec = 0, parallax = Some 1\<rparr>]
       = \<lparr>star_distances = [Fin 1], star_x = [Fin 1], star_y = [Fin 0]\<rparr>"
    by (simp add: project_kept kept_def parallax_of_def)
  have b: "project [\<lparr>source_id = i, ra = 90, dec = 0, parallax = Some 1\<rparr>]
       = \<lparr>star_distances = [Fin 1], star_x = [Fin 0], star_y = [Fin 1]\<rparr>"
    by (simp add: project_kept kept_def parallax_of_def)
  show ?thesis using a b project_kept [of tbl] by simp
qed



subsection \<open>The query\<close>

lemma lyr_in_pc_pos: "0 < lyr_in_pc"
  by (simp add: lyr_in_pc_def)

lemma lyr_in_pc_less_2: "lyr_in_pc < 2"
proof -
  have "9460730472580800 * pi < 9460730472580800 * 4"
    using pi_less_4 by simp
  then show ?thesis by (simp add: lyr_in_pc_def)
qed

lemma to_pc_Fin: "to_pc (Fin l) = Fin (l * lyr_in_pc)"
  by (simp add: to_pc_def)

lemma selects_build_query:
  "d \<noteq> 0 \<Longrightarrow> selects (build_query (Fin d)) r \<longleftrightarrow> (\<exists>p. parallax r = Some p \<and> 1 / d \<le> p)"
  by (auto simp: selects_def build_query_def np_ge_def split: option.splits)




subsection \<open>The user's input\<close>


lemma py_float_minus_5: "py_float ''-5'' = Some (Fin (- 5))"
  by code_simp





subsection \<open>The two entry points\<close>


text \<open>
  The window's method with its inlined computations folded into the script's functions,
  for a number that was read and a result table that is not empty.
\<close>

lemma plot_nearby_stars_unfold:
  assumes "py_float text = Some l" and "gaia (build_query (to_pc l)) \<noteq> []"
  shows "plot_nearby_stars gaia text =
     (let p = project (gaia (build_query (to_pc l)));
          drawn = [LaunchJob (build_query (to_pc l)), FigClf, AddSubplot, AxClear, SunGlow,
                   ScatterSun]
      in case (np_amin (star_distances p), np_amax (star_distances p)) of
           (Inr lo, Inr hi) \<Rightarrow>
             if finite_limit (np_neg (to_pc l)) \<and> finite_limit (to_pc l)
             then
               (drawn @
                [ScatterStars (star_x p) (star_y p)
                   (map (\<lambda>d. Coolwarm (np_sub (Fin 1) (np_div (np_sub d lo) (np_sub hi lo))))
                      (star_distances p))
                   (map (\<lambda>d. np_add
                                (np_mul (np_sub (Fin 1) (np_div (np_sub d lo) (np_sub hi lo)))
                                   (Fin (100 - 10)))
                                (Fin 10))
                      (star_distances p)),
                 SetXlim (np_neg (to_pc l)) (to_pc l), SetYlim (np_neg (to_pc l)) (to_pc l),
                 SetLabels, SetTitle l, Legend, Colorbar, TickParams, Grid, CanvasDraw],
                None)
             else
               (drawn @
                [ScatterStars (star_x p) (star_y p)
                   (map (\<lambda>d. Coolwarm (np_sub (Fin 1) (np_div (np_sub d lo) (np_sub hi lo))))
                      (star_distances p))
                   (map (\<lambda>d. np_add
                                (np_mul (np_sub (Fin 1) (np_div (np_sub d lo) (np_sub hi lo)))
                                   (Fin (100 - 10)))
                                (Fin 10))
                      (star_distances p))],
                Some ValueError)
         | _ \<Rightarrow> (drawn, Some ValueError))"
  using assms unfolding build_query_def to_pc_def
  by (simp only: plot_nearby_stars_def project_def Let_def option.case length_0_conv if_False
        projection.select_convs)


subsection \<open>Sizes and colours\<close>

lemma np_minimum_Fin: "np_minimum (Fin a) (Fin b) = Fin (min a b)"
  by (simp add: np_minimum_def min_def)

lemma np_maximum_Fin: "np_maximum (Fin a) (Fin b) = Fin (max a b)"
  by (simp add: np_maximum_def max_def)

lemma foldl_np_minimum_Fin: "foldl np_minimum (Fin a) (map Fin ds) = Fin (fold min ds a)"
  by (induction ds arbitrary: a) (simp_all add: np_minimum_Fin min.commute)

lemma foldl_np_maximum_Fin: "foldl np_maximum (Fin a) (map Fin ds) = Fin (fold max ds a)"
  by (induction ds arbitrary: a) (simp_all add: np_maximum_Fin max.commute)

lemma np_amin_Fin: "ds \<noteq> [] \<Longrightarrow> np_amin (map Fin ds) = Inr (Fin (Min (set ds)))"
  by (cases ds) (simp_all add: foldl_np_minimum_Fin Min.set_eq_fold del: set_simps)

lemma np_amax_Fin: "ds \<noteq> [] \<Longrightarrow> np_amax (map Fin ds) = Inr (Fin (Max (set ds)))"
  by (cases ds) (simp_all add: foldl_np_maximum_Fin Max.set_eq_fold del: set_simps)

lemma normalized_Fin:
  "lo < hi \<Longrightarrow>
     np_div (np_sub (Fin d) (Fin lo)) (np_sub (Fin hi) (Fin lo)) = Fin ((d - lo) / (hi - lo))"
  by (simp add: np_sub_def)

lemma star_sizes_Fin:
  assumes "np_amin (map Fin ds) = Inr (Fin lo)" and "np_amax (map Fin ds) = Inr (Fin hi)"
    and "lo < hi"
  shows "star_sizes (map Fin ds) =
           Inr (map (\<lambda>d. Fin ((1 - (d - lo) / (hi - lo)) * (max_star_size - min_star_size)
                               + min_star_size)) ds)"
  using assms(3)
  by (simp add: star_sizes_def assms(1,2) normalized_Fin np_sub_def comp_def)

lemma star_colors_Fin:
  assumes "np_amin (map Fin ds) = Inr (Fin lo)" and "np_amax (map Fin ds) = Inr (Fin hi)"
    and "lo < hi"
  shows "star_colors (map Fin ds) = Inr (map (\<lambda>d. Coolwarm (Fin (1 - (d - lo) / (hi - lo)))) ds)"
  using assms(3)
  by (simp add: star_colors_def assms(1,2) normalized_Fin np_sub_def comp_def)

text \<open>
  Claim C5. For a sample of finite distances whose largest exceeds its smallest, with
  normalized = (d - d_min) / (d_max - d_min): each size is
  (1 - normalized) * (max_star_size - min_star_size) + min_star_size with the constants 100
  and 10, each colour is the colour map applied to 1 - normalized, a star at least as far as
  another is drawn no larger, and two sizes compare as the two colour-map arguments do.
\<close>

theorem sizes_follow_distance:
  assumes "ds \<noteq> []" and "Min (set ds) < Max (set ds)"
  shows "\<exists>ns. length ns = length ds
           \<and> (\<forall>i<length ds. ns ! i = (ds ! i - Min (set ds)) / (Max (set ds) - Min (set ds)))
           \<and> star_sizes (map Fin ds)
               = Inr (map (\<lambda>n. Fin ((1 - n) * (max_star_size - min_star_size) + min_star_size)) ns)
           \<and> star_colors (map Fin ds) = Inr (map (\<lambda>n. Coolwarm (Fin (1 - n))) ns)
           \<and> max_star_size = 100 \<and> min_star_size = 10
           \<and> (\<forall>i<length ds. \<forall>j<length ds. ds ! i \<le> ds ! j \<longrightarrow>
                  (1 - ns ! j) * (max_star_size - min_star_size) + min_star_size
                    \<le> (1 - ns ! i) * (max_star_size - min_star_size) + min_star_size)
           \<and> (\<forall>i<length ds. \<forall>j<length ds.
                  ((1 - ns ! i) * (max_star_size - min_star_size) + min_star_size
                     \<le> (1 - ns ! j) * (max_star_size - min_star_size) + min_star_size)
                  = (1 - ns ! i \<le> 1 - ns ! j))"
proof -
  define lo where "lo = Min (set ds)"
  define hi where "hi = Max (set ds)"
  define ns where "ns = map (\<lambda>d. (d - lo) / (hi - lo)) ds"
  have w: "0 < hi - lo" using assms(2) by (simp add: lo_def hi_def)
  have 1: "length ns = length ds" by (simp add: ns_def)
  have 2: "\<forall>i<length ds. ns ! i = (ds ! i - Min (set ds)) / (Max (set ds) - Min (set ds))"
    by (simp add: ns_def lo_def hi_def)
  have lh: "lo < hi" using assms(2) by (simp add: lo_def hi_def)
  have mn: "np_amin (map Fin ds) = Inr (Fin lo)" "np_amax (map Fin ds) = Inr (Fin hi)"
    using assms(1) by (simp_all add: np_amin_Fin np_amax_Fin lo_def hi_def)
  have 3: "star_sizes (map Fin ds)
               = Inr (map (\<lambda>n. Fin ((1 - n) * (max_star_size - min_star_size) + min_star_size)) ns)"
    using star_sizes_Fin [OF mn lh] by (simp add: ns_def comp_def)
  have 4: "star_colors (map Fin ds) = Inr (map (\<lambda>n. Coolwarm (Fin (1 - n))) ns)"
    using star_colors_Fin [OF mn lh] by (simp add: ns_def comp_def)
  have 5: "\<forall>i<length ds. \<forall>j<length ds. ds ! i \<le> ds ! j \<longrightarrow>
                  (1 - ns ! j) * (max_star_size - min_star_size) + min_star_size
                    \<le> (1 - ns ! i) * (max_star_size - min_star_size) + min_star_size"
  proof (intro allI impI)
    fix i j assume i: "i < length ds" and j: "j < length ds" and le: "ds ! i \<le> ds ! j"
    have "(ds ! i - lo) / (hi - lo) \<le> (ds ! j - lo) / (hi - lo)"
      using le w by (simp add: divide_right_mono)
    then have "ns ! i \<le> ns ! j" using i j by (simp add: ns_def)
    then show "(1 - ns ! j) * (max_star_size - min_star_size) + min_star_size
                    \<le> (1 - ns ! i) * (max_star_size - min_star_size) + min_star_size"
      by (simp add: max_star_size_def min_star_size_def)
  qed
  have 6: "\<forall>i<length ds. \<forall>j<length ds.
                  ((1 - ns ! i) * (max_star_size - min_star_size) + min_star_size
                     \<le> (1 - ns ! j) * (max_star_size - min_star_size) + min_star_size)
                  = (1 - ns ! i \<le> 1 - ns ! j)"
    by (simp add: max_star_size_def min_star_size_def)
  have 7: "max_star_size = 100 \<and> min_star_size = 10"
    by (simp add: max_star_size_def min_star_size_def)
  show ?thesis using 1 2 3 4 5 6 7 by blast
qed

theorem sizes_follow_distance_witness:
  "[1, 2, 4 :: real] \<noteq> [] \<and> Min (set [1, 2, 4 :: real]) < Max (set [1, 2, 4 :: real])
   \<and> star_sizes [Fin 1, Fin 2, Fin 4] = Inr [Fin 100, Fin 70, Fin 10]
   \<and> star_colors [Fin 1, Fin 2, Fin 4] = Inr [Coolwarm (Fin 1), Coolwarm (Fin (2 / 3)), Coolwarm (Fin 0)]"
proof -
  have a: "[1, 2, 4 :: real] \<noteq> []" by simp
  have b: "Min (set [1, 2, 4 :: real]) < Max (set [1, 2, 4 :: real])" by simp
  obtain ns where n: "length ns = length [1, 2, 4 :: real]"
     "\<forall>i<length [1, 2, 4 :: real]. ns ! i = ([1, 2, 4] ! i - Min (set [1, 2, 4 :: real])) / (Max (set [1, 2, 4 :: real]) - Min (set [1, 2, 4 :: real]))"
     "star_sizes (map Fin [1, 2, 4])
               = Inr (map (\<lambda>n. Fin ((1 - n) * (max_star_size - min_star_size) + min_star_size)) ns)"
     "star_colors (map Fin [1, 2, 4]) = Inr (map (\<lambda>n. Coolwarm (Fin (1 - n))) ns)"
     "max_star_size = 100" "min_star_size = 10"
    using sizes_follow_distance [OF a b] by blast
  from n(1) obtain n0 n1 n2 where ns: "ns = [n0, n1, n2]"
    by (auto simp: length_Suc_conv numeral_3_eq_3)
  have v: "ns = [0, 1 / 3, 1]"
    using n(2) [rule_format, of 0] n(2) [rule_format, of 1] n(2) [rule_format, of 2]
    by (simp add: ns)
  show ?thesis
    using a b n(3,4) [unfolded v n(5) n(6)] by simp
qed

text \<open>
  Claim C6 names what should hold for a sample of one star; the code has no such rule. With
  one distance, \<^verbatim>\<open>distances.max() - distances.min()\<close> is 0, the quotient 0 / 0 is NaN, and
  the size and the colour-map argument are NaN, not max_star_size and 1.
\<close>

theorem single_star_size_is_nan:
  "star_sizes [Fin d] = Inr [NaN]
   \<and> star_colors [Fin d] = Inr [Coolwarm NaN]
   \<and> star_distances (project [\<lparr>source_id = 1, ra = 0, dec = 0, parallax = Some 1\<rparr>]) = [Fin 1]
   \<and> star_sizes (star_distances (project [\<lparr>source_id = 1, ra = 0, dec = 0, parallax = Some 1\<rparr>]))
       = Inr [NaN]"
  by (simp add: star_sizes_def star_colors_def np_sub_def project_kept kept_def parallax_of_def)

subsection \<open>A table with no kept row\<close>


lemma no_kept_rows_raise:
  assumes "gaia (build_query (to_pc l)) = tbl" and "tbl \<noteq> []" and "filter kept tbl = []"
  shows "nearby_stars gaia l
           = ([LaunchJob (build_query (to_pc l)), Subplots, SunGlow, ScatterSun], Some ValueError)"
  using assms by (simp add: nearby_stars_def Let_def project_kept star_sizes_def)

text \<open>
  Claim C4 holds for an empty table only: the script prints its message and returns without a
  plotting call. The code tests the length of the table, not of the kept rows. For the
  distance -5 light-years the query's threshold is negative; a table of one row with
  parallax -1/10, which that query selects, passes the test, the figure and the Sun are
  drawn, and \<^verbatim>\<open>distances.min()\<close> on the empty array raises \<^verbatim>\<open>ValueError\<close>. The window's
  method does the same.
\<close>

theorem all_rows_dropped_raises:
  "selects (build_query (to_pc (Fin (- 5)))) \<lparr>source_id = 1, ra = 0, dec = 0, parallax = Some (- (1 / 10))\<rparr>
   \<and> nearby_stars (\<lambda>q. [\<lparr>source_id = 1, ra = 0, dec = 0, parallax = Some (- (1 / 10))\<rparr>]) (Fin (- 5))
       = ([LaunchJob (build_query (to_pc (Fin (- 5)))), Subplots, SunGlow, ScatterSun],
          Some ValueError)
   \<and> plot_nearby_stars (\<lambda>q. [\<lparr>source_id = 1, ra = 0, dec = 0, parallax = Some (- (1 / 10))\<rparr>]) ''-5''
       = ([LaunchJob (build_query (to_pc (Fin (- 5)))), FigClf, AddSubplot, AxClear, SunGlow,
           ScatterSun],
          Some ValueError)
   \<and> nearby_stars (\<lambda>q. []) (Fin (- 5))
       = ([LaunchJob (build_query (to_pc (Fin (- 5)))),
           Print ''No nearby stars found within the specified distance.''], None)"
proof -
  have k: "0 < lyr_in_pc" "lyr_in_pc < 2" by (rule lyr_in_pc_pos, rule lyr_in_pc_less_2)
  have t: "1 / (- 5 * lyr_in_pc) \<le> - (1 / 10)"
    using k by (simp add: field_simps)
  have 1: "selects (build_query (to_pc (Fin (- 5))))
             \<lparr>source_id = 1, ra = 0, dec = 0, parallax = Some (- (1 / 10))\<rparr>"
    using k t by (simp add: to_pc_Fin selects_build_query)
  have 2: "nearby_stars (\<lambda>q. [\<lparr>source_id = 1, ra = 0, dec = 0, parallax = Some (- (1 / 10))\<rparr>]) (Fin (- 5))
       = ([LaunchJob (build_query (to_pc (Fin (- 5)))), Subplots, SunGlow, ScatterSun],
          Some ValueError)"
    by (rule no_kept_rows_raise
              [where tbl = "[\<lparr>source_id = 1, ra = 0, dec = 0, parallax = Some (- (1 / 10))\<rparr>]"])
       (simp_all add: kept_def)
  have 3: "plot_nearby_stars (\<lambda>q. [\<lparr>source_id = 1, ra = 0, dec = 0, parallax = Some (- (1 / 10))\<rparr>]) ''-5''
       = ([LaunchJob (build_query (to_pc (Fin (- 5)))), FigClf, AddSubplot, AxClear, SunGlow,
           ScatterSun],
          Some ValueError)"
    using plot_nearby_stars_unfold
            [where gaia = "\<lambda>q. [\<lparr>source_id = 1, ra = 0, dec = 0, parallax = Some (- (1 / 10))\<rparr>]",
             OF py_float_minus_5]
    by (simp add: project_kept kept_def)
  have 4: "nearby_stars (\<lambda>q. []) (Fin (- 5))
       = ([LaunchJob (build_query (to_pc (Fin (- 5)))),
           Print ''No nearby stars found within the specified distance.''], None)"
    by (simp add: nearby_stars_def)
  show ?thesis using 1 2 3 4 by simp
qed

subsection \<open>Stars inside the axis limits\<close>







subsection \<open>Dropped rows\<close>




end
